theory Spec2Isabelle
  imports Main "HOL-Library.Word" "HOL-Library.Monad_Syntax"
begin

unbundle bit_operations_syntax

section \<open>Machine types and protocol constants (PmxBaseClass.h)\<close>

text \<open>
  The library targets Arduino boards: \<open>byte\<close> is an unsigned 8-bit value, \<open>short\<close> and
  \<open>unsigned short\<close> are 16 bits wide, \<open>long\<close> and \<open>unsigned long\<close> are 32 bits wide.
  A signed and an unsigned C type of the same width share one word type here; the signed
  reading of a word is \<open>sint\<close>, a sign-extending conversion is \<open>scast\<close> and a zero-extending
  one is \<open>ucast\<close>.
\<close>

type_synonym byte = "8 word"
type_synonym ushort = "16 word"
type_synonym long = "32 word"

text \<open>\<open>PMX::ErrorByteData\<close>, \<open>PMX::ErrorUint16Data\<close>, \<open>PMX::ErrorUint32Data\<close>.\<close>

definition ErrorByteData :: byte where
  "ErrorByteData = 0xFF"

definition ErrorUint16Data :: ushort where
  "ErrorUint16Data = 0x7FFF"

definition ErrorUint32Data :: long where
  "ErrorUint32Data = 0x7FFFFFFF"

text \<open>\<open>PMX::SendCmd\<close>: the command bytes of the requests used below.\<close>

definition SendCmd_MemREAD :: byte where
  "SendCmd_MemREAD = 0xa0"

definition SendCmd_MemWRITE :: byte where
  "SendCmd_MemWRITE = 0xa1"

definition SendCmd_MotorREAD :: byte where
  "SendCmd_MotorREAD = 0xa4"

definition SendCmd_MotorWRITE :: byte where
  "SendCmd_MotorWRITE = 0xa5"

text \<open>\<open>PMX::BuffPter\<close>: positions inside a frame.\<close>

definition BuffPter_Length :: nat where
  "BuffPter_Length = 3"

definition BuffPter_CMD :: nat where
  "BuffPter_CMD = 4"

definition BuffPter_Status :: nat where
  "BuffPter_Status = 5"

definition BuffPter_Data :: nat where
  "BuffPter_Data = 6"

text \<open>\<open>PMX::ReceiveDataOption\<close>: one bit per telemetry field of a motor response.\<close>

definition ReceiveDataOption_NoReturn :: byte where
  "ReceiveDataOption_NoReturn = 0x00"

definition ReceiveDataOption_Position :: byte where
  "ReceiveDataOption_Position = 0x01"

definition ReceiveDataOption_Speed :: byte where
  "ReceiveDataOption_Speed = 0x02"

definition ReceiveDataOption_Current :: byte where
  "ReceiveDataOption_Current = 0x04"

definition ReceiveDataOption_Torque :: byte where
  "ReceiveDataOption_Torque = 0x08"

definition ReceiveDataOption_Pwm :: byte where
  "ReceiveDataOption_Pwm = 0x10"

definition ReceiveDataOption_MotorTemp :: byte where
  "ReceiveDataOption_MotorTemp = 0x20"

definition ReceiveDataOption_CpuTemp :: byte where
  "ReceiveDataOption_CpuTemp = 0x40"

definition ReceiveDataOption_Voltage :: byte where
  "ReceiveDataOption_Voltage = 0x80"

text \<open>\<open>PMX::ControlMode::Position\<close>.\<close>

definition ControlMode_Position :: byte where
  "ControlMode_Position = 0x01"

text \<open>\<open>PMX::ComError\<close>: the transport error classes, kept in the high byte of a status.\<close>

definition ComError_OK :: ushort where
  "ComError_OK = 0"

definition ComError_TimeOut :: ushort where
  "ComError_TimeOut = 0xFF00"

definition ComError_CrcError :: ushort where
  "ComError_CrcError = 0xFE00"

definition ComError_FormatError :: ushort where
  "ComError_FormatError = 0xFD00"

definition ComError_ReceiveError :: ushort where
  "ComError_ReceiveError = 0xFB00"

definition ComError_MotorREADConvertError :: ushort where
  "ComError_MotorREADConvertError = 0xFA00"

definition ComError_ErrorMask :: ushort where
  "ComError_ErrorMask = 0xFF00"

text \<open>\<open>PMX::MinimumLength\<close>.\<close>

definition MinimumLength_Send :: byte where
  "MinimumLength_Send = 8"

definition MinimumLength_Receive :: byte where
  "MinimumLength_Receive = 8"

text \<open>\<open>PMX::TorqueSwitchType\<close>.\<close>

definition TorqueSwitchType_TorqueOn :: byte where
  "TorqueSwitchType_TorqueOn = 0x01"

definition TorqueSwitchType_Free :: byte where
  "TorqueSwitchType_Free = 0x02"

definition TorqueSwitchType_Brake :: byte where
  "TorqueSwitchType_Brake = 0x04"

definition TorqueSwitchType_Hold :: byte where
  "TorqueSwitchType_Hold = 0x08"

definition TorqueSwitchType_Error :: byte where
  "TorqueSwitchType_Error = 0xFF"

section \<open>Scalar byte codecs (DataConvert.cpp)\<close>

text \<open>
  Every codec goes through a union of a byte array and a scalar. The supported boards are
  little-endian, so \<open>byte[0]\<close> is the least significant byte of the scalar. A pointer
  argument \<open>byteDatas\<close> is the list of bytes starting at the pointer; an output array is
  the list of the bytes written.
\<close>

definition bytesToInt16 :: "byte list \<Rightarrow> ushort" where
  "bytesToInt16 byteDatas = ucast (byteDatas ! 0) OR push_bit 8 (ucast (byteDatas ! 1))"

definition bytesToUint16 :: "byte list \<Rightarrow> ushort" where
  "bytesToUint16 byteDatas = ucast (byteDatas ! 0) OR push_bit 8 (ucast (byteDatas ! 1))"

definition bytesToInt32 :: "byte list \<Rightarrow> long" where
  "bytesToInt32 byteDatas =
     ucast (byteDatas ! 0) OR push_bit 8 (ucast (byteDatas ! 1)) OR
     push_bit 16 (ucast (byteDatas ! 2)) OR push_bit 24 (ucast (byteDatas ! 3))"

definition bytesToUint32 :: "byte list \<Rightarrow> long" where
  "bytesToUint32 byteDatas =
     ucast (byteDatas ! 0) OR push_bit 8 (ucast (byteDatas ! 1)) OR
     push_bit 16 (ucast (byteDatas ! 2)) OR push_bit 24 (ucast (byteDatas ! 3))"

definition int16ToBytes :: "ushort \<Rightarrow> byte list" where
  "int16ToBytes shortData = [ucast shortData, ucast (drop_bit 8 shortData)]"

definition uint16ToBytes :: "ushort \<Rightarrow> byte list" where
  "uint16ToBytes wordData = [ucast wordData, ucast (drop_bit 8 wordData)]"

definition int32ToBytes :: "long \<Rightarrow> byte list" where
  "int32ToBytes longData =
     [ucast longData, ucast (drop_bit 8 longData),
      ucast (drop_bit 16 longData), ucast (drop_bit 24 longData)]"

definition uint32ToBytes :: "long \<Rightarrow> byte list" where
  "uint32ToBytes dwordData =
     [ucast dwordData, ucast (drop_bit 8 dwordData),
      ucast (drop_bit 16 dwordData), ucast (drop_bit 24 dwordData)]"

section \<open>Collaborators that are not part of the sources\<close>

text \<open>
  The checksum routines \<open>PmxCrc16::setCrc16\<close> and \<open>PmxCrc16::checkCrc16\<close> live in
  \<open>PmxCRC.h\<close>, which is not among the sources: they are parameters, any function that
  completes a transmit buffer and any predicate on a receive buffer.
\<close>

record pmxCrc16 =
  setCrc16 :: "byte list \<Rightarrow> byte list"
  checkCrc16 :: "byte list \<Rightarrow> bool"

text \<open>
  \<open>PmxBase\<close> declares its transport as virtual methods, to be supplied by a derived
  class. A transport is a pair of functions over a transport state \<open>'t\<close>:
  \<^item> \<open>synchronize s txBuf txLen rxLen\<close> returns the flag, the bytes it left in the caller's
    receive array (from \<open>rxBuf[0]\<close> on) and the new state;
  \<^item> \<open>synchronizeVariableRead s txBuf txLen\<close> returns the flag, the bytes it left in the
    caller's receive array (from \<open>rxBuf[0]\<close> on), the value stored through \<open>rxLen\<close> and the
    new state.
  \<open>synchronize\<close> is told the number of bytes to receive, which its callers make the
  length of their array; \<open>synchronizeVariableRead\<close> is not told how long the caller's
  array is.
  Every call of a virtual method goes through this record, so a function that hands the
  state back unchanged for every transport has called none of them.
\<close>

record 't transport =
  synchronize :: "'t \<Rightarrow> byte list \<Rightarrow> byte \<Rightarrow> byte \<Rightarrow> bool \<times> byte list \<times> 't"
  synchronizeVariableRead :: "'t \<Rightarrow> byte list \<Rightarrow> byte \<Rightarrow> bool \<times> byte list \<times> byte \<times> 't"

section \<open>Frame validation and field counting (PmxBaseClass.cpp)\<close>

text \<open>
  \<open>PmxBase::checkRecv\<close>. The two \<open>Serial.println\<close> diagnostics and the calls of
  \<open>logOutputPrint\<close> in the functions below are left out: they only print.
\<close>

definition checkRecv :: "pmxCrc16 \<Rightarrow> byte list \<Rightarrow> byte \<Rightarrow> byte \<Rightarrow> ushort" where
  "checkRecv crc rxBuff cmd header =
     (if rxBuff ! 0 \<noteq> header \<or> rxBuff ! 1 \<noteq> header then ComError_ReceiveError
      else if rxBuff ! BuffPter_CMD \<noteq> (cmd AND 0x7f) then ComError_ReceiveError
      else if False = checkCrc16 crc rxBuff then ComError_CrcError
      else ComError_OK)"

text \<open>
  \<open>PmxBase::__byteCounter\<close>: the loop inspects the lowest bit of \<open>val\<close> and shifts \<open>val\<close>
  right, eight times.
\<close>

function byteCounter_loop :: "nat \<Rightarrow> byte \<Rightarrow> nat \<Rightarrow> nat" where
  "byteCounter_loop i val cnt =
     (if i < 8
      then byteCounter_loop (i + 1) (drop_bit 1 val) (if val AND 0x01 = 1 then cnt + 1 else cnt)
      else cnt)"
  by pat_completeness auto
termination
  by (relation "measure (\<lambda>(i, val, cnt). 8 - i)") auto

definition byteCounter :: "byte \<Rightarrow> nat" where
  "byteCounter val = byteCounter_loop 0 val 0 * 2"

text \<open>
  \<open>PmxBase::__convReceiveMotorData\<close>. Its body is eight blocks of one shape,
  \<^verbatim>\<open>if ((receiveMode & F) == F) { motorData[k] = (long)conv(&receiveBytes[arrayCount]); arrayCount += 2; }\<close>
  and \<open>motorDataField\<close> is that block, on the pair of \<open>motorData\<close> and \<open>arrayCount\<close>;
  \<open>&(receiveBytes[arrayCount])\<close> is \<open>drop arrayCount receiveBytes\<close>. The result of
  \<open>convReceiveMotorData\<close> pairs the returned flag with the eight slots of \<open>motorData\<close>
  after the call.
\<close>

definition motorDataField ::
  "bool \<Rightarrow> nat \<Rightarrow> (byte list \<Rightarrow> long) \<Rightarrow> byte list \<Rightarrow> long list \<times> nat \<Rightarrow> long list \<times> nat" where
  "motorDataField selected k conv receiveBytes st =
     (case st of (motorData, arrayCount) \<Rightarrow>
        if selected
        then (motorData[k := conv (drop arrayCount receiveBytes)], arrayCount + 2)
        else (motorData, arrayCount))"

definition convReceiveMotorData :: "byte \<Rightarrow> byte list \<Rightarrow> byte \<Rightarrow> byte \<Rightarrow> bool \<times> long list" where
  "convReceiveMotorData receiveMode receiveBytes receiveBytesSize controlMode =
     (let st = (replicate 8 ErrorUint32Data, 0 :: nat) in
      if unat receiveBytesSize \<noteq> byteCounter receiveMode then (False, fst st)
      else
        let st = motorDataField
                   (receiveMode AND ReceiveDataOption_Position = ReceiveDataOption_Position) 0
                   (\<lambda>p. if controlMode AND ControlMode_Position = ControlMode_Position
                        then scast (bytesToInt16 p) else ucast (bytesToUint16 p))
                   receiveBytes st;
            st = motorDataField
                   (receiveMode AND ReceiveDataOption_Speed = ReceiveDataOption_Speed) 1
                   (\<lambda>p. scast (bytesToInt16 p)) receiveBytes st;
            st = motorDataField
                   (receiveMode AND ReceiveDataOption_Current = ReceiveDataOption_Current) 2
                   (\<lambda>p. scast (bytesToInt16 p)) receiveBytes st;
            st = motorDataField
                   (receiveMode AND ReceiveDataOption_Torque = ReceiveDataOption_Torque) 3
                   (\<lambda>p. scast (bytesToInt16 p)) receiveBytes st;
            st = motorDataField
                   (receiveMode AND ReceiveDataOption_Pwm = ReceiveDataOption_Pwm) 4
                   (\<lambda>p. scast (bytesToInt16 p)) receiveBytes st;
            st = motorDataField
                   (receiveMode AND ReceiveDataOption_MotorTemp = ReceiveDataOption_MotorTemp) 5
                   (\<lambda>p. scast (bytesToInt16 p)) receiveBytes st;
            st = motorDataField
                   (receiveMode AND ReceiveDataOption_CpuTemp = ReceiveDataOption_CpuTemp) 6
                   (\<lambda>p. scast (bytesToInt16 p)) receiveBytes st;
            st = motorDataField
                   (receiveMode AND ReceiveDataOption_Voltage = ReceiveDataOption_Voltage) 7
                   (\<lambda>p. ucast (bytesToUint16 p)) receiveBytes st
        in (True, fst st))"

section \<open>Register access (PmxBaseClass.cpp)\<close>

text \<open>
  \<open>PmxBase::MemREAD\<close>. The arguments are the checksum routines, the transport and its
  state, then the arguments of the C++ function (\<open>id'\<close> for \<open>id\<close>); \<open>rxData\<close> is the caller's array, and the
  result is the returned status, \<open>rxData\<close> after the call and the transport state. The two
  last bytes of \<open>txbuf\<close> are the ones \<open>setCrc16\<close> fills in. The caller's array holds at
  least \<open>readDataSize\<close> bytes (C++ has no bounds check); \<open>header\<close> of \<open>checkRecv\<close> takes its
  default \<open>0xfe\<close>.
\<close>

definition MemREAD ::
  "pmxCrc16 \<Rightarrow> 't transport \<Rightarrow> 't \<Rightarrow> byte \<Rightarrow> ushort \<Rightarrow> int \<Rightarrow> byte list \<Rightarrow> ushort \<times> byte list \<times> 't" where
  "MemREAD crc tr s id' addr readDataSize rxData =
     (let PUT_MAX_DATA_LENGTH = 244 :: int in
      if readDataSize = 0 \<or> readDataSize \<ge> PUT_MAX_DATA_LENGTH
      then (ComError_FormatError, rxData, s)
      else
        let txSize = 11 :: int;
            rxSize = 8 + readDataSize;
            txbuf = [0xFE, 0xFE, id', word_of_int txSize, SendCmd_MemREAD, 0x00,
                     ucast (addr AND 0x00ff), ucast (drop_bit 8 (addr AND 0xff00)),
                     word_of_int readDataSize, 0, 0];
            txbuf = setCrc16 crc txbuf;
            (rxFlag, rxbuf, s) = synchronize tr s txbuf (word_of_int txSize) (word_of_int rxSize)
        in if rxFlag = False
           then (ComError_TimeOut,
                 fold (\<lambda>i d. d[i := 0xFF]) [0..<nat readDataSize] rxData, s)
           else
             let errorFlag = checkRecv crc rxbuf SendCmd_MemREAD 0xfe in
             if errorFlag \<noteq> ComError_OK then (errorFlag, rxData, s)
             else
               let status = ucast (rxbuf ! BuffPter_Status) in
               (status,
                fold (\<lambda>i d. d[i := rxbuf ! (BuffPter_Data + i)]) [0..<nat readDataSize] rxData,
                s))"

text \<open>
  The typed readers. \<open>byteData\<close> is the value behind the pointer before the call; the
  local arrays \<open>reByte\<close> are uninitialised in C++ and start as zeros here (their first
  content never reaches a result: \<open>MemREAD\<close> overwrites them, or the status carries an
  error class and the decoded value is replaced). The cast \<open>(short)\<close> truncates to 16
  bits, and a \<open>short\<close> stored into a \<open>long\<close> or an \<open>unsigned long\<close> is sign-extended.
\<close>

definition MemREADToByte ::
  "pmxCrc16 \<Rightarrow> 't transport \<Rightarrow> 't \<Rightarrow> byte \<Rightarrow> ushort \<Rightarrow> byte \<Rightarrow> ushort \<times> byte \<times> 't" where
  "MemREADToByte crc tr s id' addr byteData =
     (let (status, rxData, s) = MemREAD crc tr s id' addr 1 [byteData];
          byteData = rxData ! 0;
          byteData = (if status AND ComError_ErrorMask \<noteq> 0x0000 then ErrorByteData else byteData)
      in (status, byteData, s))"

definition MemREADToInt16 ::
  "pmxCrc16 \<Rightarrow> 't transport \<Rightarrow> 't \<Rightarrow> byte \<Rightarrow> ushort \<Rightarrow> ushort \<times> ushort \<times> 't" where
  "MemREADToInt16 crc tr s id' addr =
     (let (status, reByte, s) = MemREAD crc tr s id' addr 2 [0, 0];
          int16Data = bytesToInt16 reByte;
          int16Data = (if status AND ComError_ErrorMask \<noteq> 0x0000
                       then (ucast ErrorUint16Data :: ushort) else int16Data)
      in (status, int16Data, s))"

definition MemREADToUint16 ::
  "pmxCrc16 \<Rightarrow> 't transport \<Rightarrow> 't \<Rightarrow> byte \<Rightarrow> ushort \<Rightarrow> ushort \<times> ushort \<times> 't" where
  "MemREADToUint16 crc tr s id' addr =
     (let (status, reByte, s) = MemREAD crc tr s id' addr 2 [0, 0];
          uint16Data = bytesToInt16 reByte;
          uint16Data = (if status AND ComError_ErrorMask \<noteq> 0x0000
                        then (ucast ErrorUint16Data :: ushort) else uint16Data)
      in (status, uint16Data, s))"

definition MemREADToInt32 ::
  "pmxCrc16 \<Rightarrow> 't transport \<Rightarrow> 't \<Rightarrow> byte \<Rightarrow> ushort \<Rightarrow> ushort \<times> long \<times> 't" where
  "MemREADToInt32 crc tr s id' addr =
     (let (status, reByte, s) = MemREAD crc tr s id' addr 4 [0, 0, 0, 0];
          int32Data = bytesToInt32 reByte;
          int32Data = (if status AND ComError_ErrorMask \<noteq> 0x0000
                       then scast (ucast ErrorUint32Data :: ushort) else int32Data)
      in (status, int32Data, s))"

definition MemREADToUint32 ::
  "pmxCrc16 \<Rightarrow> 't transport \<Rightarrow> 't \<Rightarrow> byte \<Rightarrow> ushort \<Rightarrow> ushort \<times> long \<times> 't" where
  "MemREADToUint32 crc tr s id' addr =
     (let (status, reByte, s) = MemREAD crc tr s id' addr 4 [0, 0, 0, 0];
          uint32Data = bytesToInt32 reByte;
          uint32Data = (if status AND ComError_ErrorMask \<noteq> 0x0000
                        then scast (ucast ErrorUint32Data :: ushort) else uint32Data)
      in (status, uint32Data, s))"

text \<open>\<open>PmxBase::MemWRITE\<close>: the result is the returned status and the transport state.\<close>

definition MemWRITE ::
  "pmxCrc16 \<Rightarrow> 't transport \<Rightarrow> 't \<Rightarrow> byte \<Rightarrow> ushort \<Rightarrow> byte list \<Rightarrow> int \<Rightarrow> byte \<Rightarrow> ushort \<times> 't" where
  "MemWRITE crc tr s id' addr txDataArray txDataSize writeOpt =
     (let PUT_MAX_DATA_LENGTH = 245 :: int in
      if txDataSize = 0 \<or> txDataSize \<ge> PUT_MAX_DATA_LENGTH then (ComError_FormatError, s)
      else
        let txSize = uint MinimumLength_Send + 2 + txDataSize;
            rxSize = MinimumLength_Receive;
            txbuf = [0xFE, 0xFE, id', word_of_int txSize, SendCmd_MemWRITE, writeOpt,
                     ucast (addr AND 0x00ff), ucast (drop_bit 8 (addr AND 0xff00))]
                    @ map (\<lambda>i. txDataArray ! i) [0..<nat txDataSize] @ [0, 0];
            txbuf = setCrc16 crc txbuf;
            (rxFlag, rxbuf, s) = synchronize tr s txbuf (word_of_int txSize) rxSize
        in if rxFlag = False then (ComError_TimeOut, s)
           else
             let errorFlag = checkRecv crc rxbuf SendCmd_MemWRITE 0xfe in
             if errorFlag \<noteq> ComError_OK then (errorFlag, s)
             else
               let status = ucast (rxbuf ! BuffPter_Status) in
               (status, s))"

section \<open>Motion commands (PmxBaseClass.cpp)\<close>

text \<open>
  A run whose behaviour C++ leaves undefined because it writes past the end of an array.
\<close>

datatype fault = BufferOverrun

text \<open>
  \<open>PmxBase::MotorREAD\<close>. The pointer \<open>torqueSw\<close> is \<open>None\<close> when it is null and \<open>Some\<close> of
  the value behind it otherwise. The receive array is declared as \<open>byte rxbuf[rxSize]\<close>,
  with the size of the expected frame, and the transport is not told that size: when the
  transport left more than \<open>rxSize\<close> bytes it has written past the end of the array, and
  the call has no defined result (\<open>Inl BufferOverrun\<close>). Otherwise the result is \<open>Inr\<close> of
  the returned status, the eight slots of \<open>readMotorData\<close>, \<open>torqueSw\<close> and the transport
  state.
\<close>

definition MotorREAD ::
  "pmxCrc16 \<Rightarrow> 't transport \<Rightarrow> 't \<Rightarrow> byte \<Rightarrow> byte \<Rightarrow> byte \<Rightarrow> byte option \<Rightarrow>
   fault + (ushort \<times> long list \<times> byte option \<times> 't)" where
  "MotorREAD crc tr s id' receiveMode controlMode torqueSw =
     (let readDataSize = byteCounter receiveMode;
          txSize = MinimumLength_Send;
          rxSize = unat MinimumLength_Receive + 1 + readDataSize;
          readMotorData = replicate 8 ErrorUint32Data;
          torqueSw = (if torqueSw \<noteq> None then Some TorqueSwitchType_Error else torqueSw);
          txbuf = [0xFE, 0xFE, id', txSize, SendCmd_MotorREAD, 0x00, 0, 0];
          txbuf = setCrc16 crc txbuf;
          (rxFlag, rxbuf, rxNowSize, s) = synchronizeVariableRead tr s txbuf txSize
      in if length rxbuf > rxSize then Inl BufferOverrun
         else if rxFlag = False then Inr (ComError_TimeOut, readMotorData, torqueSw, s)
         else
           let errorFlag = checkRecv crc rxbuf SendCmd_MotorREAD 0xfe in
           if errorFlag \<noteq> ComError_OK then Inr (errorFlag, readMotorData, torqueSw, s)
           else
             let torqueSw = (if torqueSw \<noteq> None \<and> rxNowSize \<ge> MinimumLength_Receive
                             then Some (rxbuf ! BuffPter_Data) else torqueSw);
                 status = ucast (rxbuf ! BuffPter_Status) :: ushort
             in if unat rxNowSize \<noteq> rxSize
                then Inr (status + ComError_MotorREADConvertError, readMotorData, torqueSw, s)
                else
                  let rxMotorData = map (\<lambda>i. rxbuf ! (BuffPter_Data + 1 + i)) [0..<readDataSize];
                      (flag, readMotorData) =
                        convReceiveMotorData receiveMode rxMotorData (of_nat readDataSize) controlMode
                  in if flag = False
                     then Inr (status + ComError_MotorREADConvertError, readMotorData, torqueSw, s)
                     else Inr (status, readMotorData, torqueSw, s))"

text \<open>
  \<open>PmxBase::MotorWRITE\<close>, the overload that sets the torque switch
  (\<open>id, toruqeOnSw, receiveMode, receiveData, controlMode\<close>). \<open>receiveData\<close> is \<open>None\<close> when
  the pointer is null and \<open>Some\<close> of the eight slots otherwise; the decode writes through
  the pointer without a test, which C++ leaves undefined for a null pointer, and the
  model then keeps \<open>None\<close>.
\<close>

definition MotorWRITE ::
  "pmxCrc16 \<Rightarrow> 't transport \<Rightarrow> 't \<Rightarrow> byte \<Rightarrow> byte \<Rightarrow> byte \<Rightarrow> long list option \<Rightarrow> byte \<Rightarrow>
   ushort \<times> long list option \<times> 't" where
  "MotorWRITE crc tr s id' toruqeOnSw receiveMode receiveData controlMode =
     (let receiveData = (if receiveData \<noteq> None then Some (replicate 8 ErrorUint32Data)
                         else receiveData)
      in if \<not> (toruqeOnSw = TorqueSwitchType_TorqueOn \<or>
                toruqeOnSw = TorqueSwitchType_Free \<or>
                toruqeOnSw = TorqueSwitchType_Brake \<or>
                toruqeOnSw = TorqueSwitchType_Hold)
         then (ComError_FormatError, receiveData, s)
         else
           let readDataSize = byteCounter receiveMode;
               txSize = MinimumLength_Send;
               rxSize = unat MinimumLength_Receive + 1 + readDataSize;
               txbuf = [0xFE, 0xFE, id', txSize, SendCmd_MotorWRITE, toruqeOnSw, 0, 0];
               txbuf = setCrc16 crc txbuf;
               (rxFlag, rxbuf, rxNowSize, s) = synchronizeVariableRead tr s txbuf txSize
           in if rxFlag = False then (ComError_TimeOut, receiveData, s)
              else
                let errorFlag = checkRecv crc rxbuf SendCmd_MotorWRITE 0xfe in
                if errorFlag \<noteq> ComError_OK then (errorFlag, receiveData, s)
                else
                  let status = ucast (rxbuf ! BuffPter_Status) :: ushort in
                  if receiveMode = ReceiveDataOption_NoReturn then (status, receiveData, s)
                  else if unat rxNowSize \<noteq> rxSize
                  then (status + ComError_ReceiveError, receiveData, s)
                  else
                    let rxMotorData =
                          map (\<lambda>i. rxbuf ! (BuffPter_Data + 1 + i)) [0..<readDataSize];
                        (flag, motorData) =
                          convReceiveMotorData receiveMode rxMotorData (of_nat readDataSize)
                            controlMode;
                        receiveData = (if receiveData \<noteq> None then Some motorData
                                       else receiveData)
                    in if flag = False
                       then (status + ComError_MotorREADConvertError, receiveData, s)
                       else (status, receiveData, s))"

section \<open>The hardware-serial transport (PmxHardSerialClass.cpp)\<close>

text \<open>
  Arduino's \<open>HardwareSerial\<close> and the pin functions are not part of the sources: the port
  is a state \<open>'p\<close> with the operations the transport calls on it. \<open>hw_readBytes p n\<close>
  returns the bytes that arrived before the timeout and the port afterwards; \<open>hw_read\<close>
  discards one received byte.
\<close>

record 'p hardwareSerial =
  hw_flush :: "'p \<Rightarrow> 'p"
  hw_write :: "'p \<Rightarrow> byte list \<Rightarrow> 'p"
  hw_available :: "'p \<Rightarrow> int"
  hw_read :: "'p \<Rightarrow> 'p"
  hw_readBytes :: "'p \<Rightarrow> nat \<Rightarrow> byte list \<times> 'p"
  hw_digitalWrite :: "'p \<Rightarrow> byte \<Rightarrow> bool \<Rightarrow> 'p"

text \<open>
  The members of a \<open>PmxHardSerial\<close> object that the transport touches. \<open>pmxSerial\<close> is
  \<open>None\<close> for a null pointer and \<open>Some\<close> of the port otherwise; \<open>sendBuff\<close> and
  \<open>receiveBuff\<close> are the two arrays of 256 bytes; \<open>isSynchronize\<close> is the private flag
  \<open>_isSynchronize\<close>.
\<close>

record 'p pmxHardSerial =
  pmxSerial :: "'p option"
  g_enPin :: byte
  sendBuff :: "byte list"
  receiveBuff :: "byte list"
  isSynchronize :: bool

text \<open>
  The result of every function below is an option: \<open>None\<close> is a call without a defined
  result, because it does not return or because it writes past the end of an array.

  An array is a list of its length. \<open>writeAt buf off bs\<close> stores \<open>bs\<close> into \<open>buf\<close> from
  index \<open>off\<close> on, as \<open>memcpy\<close> and \<open>readBytes\<close> do with a destination pointer;
  \<open>firstBytes buf n\<close> are the \<open>n\<close> bytes that \<open>memcpy\<close> reads from the source pointer
  \<open>buf\<close>; \<open>fill buf n v\<close> is the loop that stores \<open>v\<close> at the indices below \<open>n\<close>. None of
  them has a result when it would go past the end of \<open>buf\<close>.
\<close>

definition writeAt :: "byte list \<Rightarrow> nat \<Rightarrow> byte list \<Rightarrow> byte list option" where
  "writeAt buf off bs =
     (if off + length bs \<le> length buf
      then Some (take off buf @ bs @ drop (off + length bs) buf)
      else None)"

definition firstBytes :: "byte list \<Rightarrow> nat \<Rightarrow> byte list option" where
  "firstBytes buf n = (if n \<le> length buf then Some (take n buf) else None)"

definition fill :: "byte list \<Rightarrow> nat \<Rightarrow> byte \<Rightarrow> byte list option" where
  "fill buf n v =
     (if n \<le> length buf then Some (fold (\<lambda>i b. b[i := v]) [0..<n] buf) else None)"

text \<open>
  While a call waits for the port, another thread of control that runs to completion
  (an interrupt handler, a callback of the port) may use the same object. It is the
  parameter \<open>other\<close> of every function below: a function on the object, run before and
  after each access to the port, with \<open>None\<close> when it does not return. \<open>Some\<close> is the
  run in which nothing interferes. \<open>portCall other f\<close> is one access \<open>f\<close> to the port
  behind \<open>pmxSerial\<close>; a null \<open>pmxSerial\<close> has no result.
\<close>

type_synonym 'p interference = "'p pmxHardSerial \<Rightarrow> 'p pmxHardSerial option"

definition portCall ::
  "'p interference \<Rightarrow> ('p \<Rightarrow> 'a \<times> 'p) \<Rightarrow> 'p pmxHardSerial \<Rightarrow> ('a \<times> 'p pmxHardSerial) option" where
  "portCall other f this =
     do {
       this \<leftarrow> other this;
       p \<leftarrow> pmxSerial this;
       let (a, p) = f p;
       this \<leftarrow> other (this\<lparr>pmxSerial := Some p\<rparr>);
       Some (a, this)
     }"


text \<open>
  The loop \<^verbatim>\<open>while (pmxSerial->available() > 0) pmxSerial->read();\<close> of
  \<open>__synchronizeWrite\<close>. It runs for as long as bytes keep arriving, so it is a partial
  function.
\<close>

partial_function (option) discardReceived ::
  "'p hardwareSerial \<Rightarrow> 'p interference \<Rightarrow> 'p pmxHardSerial \<Rightarrow> 'p pmxHardSerial option" where
  "discardReceived hw other this =
     do {
       (n, this) \<leftarrow> portCall other (\<lambda>p. (hw_available hw p, p)) this;
       if n > 0
       then do {
         (_, this) \<leftarrow> portCall other (\<lambda>p. ((), hw_read hw p)) this;
         discardReceived hw other this
       }
       else Some this
     }"

text \<open>
  \<open>PmxHardSerial::__synchronizeWrite\<close>: copy into \<open>sendBuff\<close>, flush, enable pin high,
  write, flush, discard what was received, enable pin low.
\<close>

definition synchronizeWrite ::
  "'p hardwareSerial \<Rightarrow> 'p interference \<Rightarrow> 'p pmxHardSerial \<Rightarrow> byte list \<Rightarrow> byte \<Rightarrow>
   'p pmxHardSerial option" where
  "synchronizeWrite hw other this txBuf txLen =
     do {
       bs \<leftarrow> firstBytes txBuf (unat txLen);
       sb \<leftarrow> writeAt (sendBuff this) 0 bs;
       let this = this\<lparr>sendBuff := sb\<rparr>;
       (_, this) \<leftarrow> portCall other (\<lambda>p. ((), hw_flush hw p)) this;
       (_, this) \<leftarrow> portCall other (\<lambda>p. ((), hw_digitalWrite hw p (g_enPin this) True)) this;
       (_, this) \<leftarrow> portCall other (\<lambda>p. ((), hw_write hw p (take (unat txLen) (sendBuff this)))) this;
       (_, this) \<leftarrow> portCall other (\<lambda>p. ((), hw_flush hw p)) this;
       this \<leftarrow> discardReceived hw other this;
       (_, this) \<leftarrow> portCall other (\<lambda>p. ((), hw_digitalWrite hw p (g_enPin this) False)) this;
       Some this
     }"

text \<open>
  The call \<open>pmxSerial->readBytes(&(receiveBuff[off]), n)\<close>: the number of bytes read (at
  most \<open>n\<close>, by the contract of \<open>Stream::readBytes\<close>), and the object with the bytes stored
  into \<open>receiveBuff\<close>.
\<close>

definition readBytes ::
  "'p hardwareSerial \<Rightarrow> 'p interference \<Rightarrow> 'p pmxHardSerial \<Rightarrow> nat \<Rightarrow> nat \<Rightarrow>
   (nat \<times> 'p pmxHardSerial) option" where
  "readBytes hw other this off n =
     do {
       (bs, this) \<leftarrow> portCall other (\<lambda>p. case hw_readBytes hw p n of (bs, p) \<Rightarrow> (take n bs, p)) this;
       rb \<leftarrow> writeAt (receiveBuff this) off bs;
       Some (length bs, this\<lparr>receiveBuff := rb\<rparr>)
     }"

text \<open>
  \<open>PmxHardSerial::synchronize\<close>. \<open>rxBuf\<close> is the caller's array before the call; the result
  is the returned flag, \<open>rxBuf\<close> after the call and the object.
\<close>

definition PmxHardSerial_synchronize ::
  "'p hardwareSerial \<Rightarrow> 'p interference \<Rightarrow> 'p pmxHardSerial \<Rightarrow> byte list \<Rightarrow> byte \<Rightarrow>
   byte list \<Rightarrow> byte \<Rightarrow> (bool \<times> byte list \<times> 'p pmxHardSerial) option" where
  "PmxHardSerial_synchronize hw other this txBuf txLen rxBuf rxLen =
     (if pmxSerial this = None then Some (False, rxBuf, this)
      else if isSynchronize this = True then Some (False, rxBuf, this)
      else do {
        let this = this\<lparr>isSynchronize := True\<rparr>;
        this \<leftarrow> synchronizeWrite hw other this txBuf txLen;
        rb \<leftarrow> fill (receiveBuff this) (unat rxLen) 0xFF;
        let this = this\<lparr>receiveBuff := rb\<rparr>;
        (rxSize, this) \<leftarrow> readBytes hw other this 0 (unat rxLen);
        bs \<leftarrow> firstBytes (receiveBuff this) (unat rxLen);
        rxBuf \<leftarrow> writeAt rxBuf 0 bs;
        let this = this\<lparr>isSynchronize := False\<rparr>;
        if rxSize \<noteq> unat rxLen then Some (False, rxBuf, this)
        else Some (True, rxBuf, this)
      })"

text \<open>
  \<open>PmxHardSerial::synchronizeVariableRead\<close>. \<open>rxLen\<close> is the value behind the pointer
  before the call; the result carries it after the call. The byte counts returned by
  \<open>readBytes\<close> are stored in \<open>byte\<close> variables, hence \<open>of_nat\<close>, and the length of the
  second read is a \<open>byte\<close> difference that wraps around.
\<close>

definition PmxHardSerial_synchronizeVariableRead ::
  "'p hardwareSerial \<Rightarrow> 'p interference \<Rightarrow> 'p pmxHardSerial \<Rightarrow> byte list \<Rightarrow> byte \<Rightarrow>
   byte list \<Rightarrow> byte \<Rightarrow> (bool \<times> byte list \<times> byte \<times> 'p pmxHardSerial) option" where
  "PmxHardSerial_synchronizeVariableRead hw other this txBuf txLen rxBuf rxLen =
     (if pmxSerial this = None then Some (False, rxBuf, rxLen, this)
      else if isSynchronize this = True then Some (False, rxBuf, rxLen, this)
      else do {
        let this = this\<lparr>isSynchronize := True\<rparr>;
        this \<leftarrow> synchronizeWrite hw other this txBuf txLen;
        rb \<leftarrow> fill (receiveBuff this) 256 0xFF;
        let this = this\<lparr>receiveBuff := rb\<rparr>;
        let minRxSize = MinimumLength_Receive - 2;
        (n1, this) \<leftarrow> readBytes hw other this 0 (unat minRxSize);
        let firstRxBuffSize = (of_nat n1 :: byte);
        if firstRxBuffSize \<noteq> minRxSize
        then Some (False, rxBuf, 0, this\<lparr>isSynchronize := False\<rparr>)
        else do {
          let allRxSize = receiveBuff this ! BuffPter_Length;
          let secondRxBuffSize = allRxSize - minRxSize;
          (n2, this) \<leftarrow> readBytes hw other this (unat minRxSize) (unat secondRxBuffSize);
          let sBuffSize = (of_nat n2 :: byte);
          if secondRxBuffSize \<noteq> sBuffSize
          then Some (False, rxBuf, minRxSize, this\<lparr>isSynchronize := False\<rparr>)
          else do {
            let rxLen = allRxSize;
            bs \<leftarrow> firstBytes (receiveBuff this) (unat allRxSize);
            rxBuf \<leftarrow> writeAt rxBuf 0 bs;
            let this = this\<lparr>isSynchronize := False\<rparr>;
            Some (True, rxBuf, rxLen, this)
          }
        }
      })"

text \<open>\<open>PmxHardSerial::synchronizeNoRead\<close>.\<close>

definition PmxHardSerial_synchronizeNoRead ::
  "'p hardwareSerial \<Rightarrow> 'p interference \<Rightarrow> 'p pmxHardSerial \<Rightarrow> byte list \<Rightarrow> byte \<Rightarrow>
   (bool \<times> 'p pmxHardSerial) option" where
  "PmxHardSerial_synchronizeNoRead hw other this txBuf txLen =
     (if pmxSerial this = None then Some (False, this)
      else if isSynchronize this = True then Some (False, this)
      else do {
        let this = this\<lparr>isSynchronize := True\<rparr>;
        this \<leftarrow> synchronizeWrite hw other this txBuf txLen;
        let this = this\<lparr>isSynchronize := False\<rparr>;
        Some (True, this)
      })"

section \<open>Notions of the specification\<close>

text \<open>
  The number of set bits of an 8-bit mask, and the number of selected fields that come
  before field \<open>k\<close> in the canonical order (position, speed, current, torque, PWM,
  motor temperature, CPU temperature, voltage: the fields 0 to 7).
\<close>

definition popcount8 :: "byte \<Rightarrow> nat" where
  "popcount8 val = length (filter (bit val) [0..<8])"

definition fieldRank :: "byte \<Rightarrow> nat \<Rightarrow> nat" where
  "fieldRank receiveMode k = length (filter (bit receiveMode) [0..<k])"

text \<open>
  The value of field \<open>k\<close> from its two wire bytes, low byte first: the position (field 0)
  is signed exactly when the control mode has the position bit \<open>0x01\<close>, the voltage
  (field 7) is unsigned, every other field is signed.
\<close>

definition fieldValue :: "nat \<Rightarrow> byte \<Rightarrow> byte \<Rightarrow> byte \<Rightarrow> long" where
  "fieldValue k controlMode lo hi =
     (let w = (ucast lo OR push_bit 8 (ucast hi)) :: ushort
      in if k = 0 then (if bit controlMode 0 then scast w else ucast w)
         else if k = 7 then ucast w
         else scast w)"

text \<open>
  The state of the decode after the blocks of the fields below \<open>j\<close>: used in the proof
  of the decode only.
\<close>

definition decodedBelow :: "byte \<Rightarrow> byte \<Rightarrow> byte list \<Rightarrow> nat \<Rightarrow> long list \<times> nat \<Rightarrow> bool" where
  "decodedBelow receiveMode controlMode receiveBytes j st =
     (length (fst st) = 8 \<and> snd st = 2 * fieldRank receiveMode j \<and>
      (\<forall>k<8. fst st ! k =
         (if k < j \<and> bit receiveMode k
          then fieldValue k controlMode (receiveBytes ! (2 * fieldRank receiveMode k))
                 (receiveBytes ! (2 * fieldRank receiveMode k + 1))
          else ErrorUint32Data)))"

section \<open>Test doubles\<close>

text \<open>
  A checksum service with a fixed verdict, a transport that records every transmit
  buffer it is handed and answers with a fixed flag, receive array and length, and a
  serial port that records what is written and delivers the bytes of a script.
\<close>

definition mockCrc16 :: "bool \<Rightarrow> pmxCrc16" where
  "mockCrc16 verdict = \<lparr>setCrc16 = (\<lambda>txbuf. txbuf), checkCrc16 = (\<lambda>rxBuff. verdict)\<rparr>"

definition mockTransport :: "bool \<Rightarrow> byte list \<Rightarrow> byte \<Rightarrow> (byte list list) transport" where
  "mockTransport flag reply replyLen =
     \<lparr>synchronize = (\<lambda>calls txBuf txLen rxLen. (flag, reply, calls @ [txBuf])),
      synchronizeVariableRead = (\<lambda>calls txBuf txLen. (flag, reply, replyLen, calls @ [txBuf]))\<rparr>"

definition scriptedPort :: "(byte list \<times> byte list) hardwareSerial" where
  "scriptedPort =
     \<lparr>hw_flush = (\<lambda>p. p),
      hw_write = (\<lambda>p bs. (fst p @ bs, snd p)),
      hw_available = (\<lambda>p. 0),
      hw_read = (\<lambda>p. p),
      hw_readBytes = (\<lambda>p n. (take n (snd p), (fst p, drop n (snd p)))),
      hw_digitalWrite = (\<lambda>p pin level. p)\<rparr>"

text \<open>
  A \<open>PmxHardSerial\<close> object on the scripted port: empty 256-byte buffers, nothing written
  yet, the bytes of \<open>script\<close> still to arrive, and the busy flag as given.
\<close>

definition scriptedObject :: "bool \<Rightarrow> byte list \<Rightarrow> (byte list \<times> byte list) pmxHardSerial" where
  "scriptedObject busy script =
     \<lparr>pmxSerial = Some ([], script), g_enPin = 2, sendBuff = replicate 256 0,
      receiveBuff = replicate 256 0, isSynchronize = busy\<rparr>"


section \<open>Field counting\<close>

declare byteCounter_loop.simps [simp del]

lemma byteCounter_loop_count:
  "i \<le> 8 \<Longrightarrow>
   byteCounter_loop i val cnt = cnt + length (filter (bit val) [0..<8 - i])"
proof (induction i val cnt rule: byteCounter_loop.induct)
  case (1 i val cnt)
  show ?case
  proof (cases "i < 8")
    case True
    then obtain n where n: "8 - i = Suc n"
      by (cases "8 - i") auto
    have shifted: "filter (bit val) [0..<Suc n] =
        (if bit val 0 then [0] else []) @ map Suc (filter (bit (drop_bit 1 val)) [0..<n])"
      by (simp add: upt_conv_Cons[of 0] map_Suc_upt[symmetric] filter_map o_def
          bit_drop_bit_eq del: upt_Suc)
    have lowest: "(val AND 1 = 1) = bit val 0"
      by (simp add: and_one_eq mod_2_eq_odd bit_0)
    from True n have rest: "7 - i = n"
      by simp
    from True have "byteCounter_loop (i + 1) (drop_bit 1 val)
          (if val AND 0x01 = 1 then cnt + 1 else cnt) =
        (if val AND 0x01 = 1 then cnt + 1 else cnt) +
          length (filter (bit (drop_bit 1 val)) [0..<8 - (i + 1)])"
      using "1.IH" by simp
    with True show ?thesis
      by (subst byteCounter_loop.simps) (simp add: n rest shifted lowest del: upt_Suc)
  next
    case False
    with 1 show ?thesis
      by (subst byteCounter_loop.simps) simp
  qed
qed

lemma byteCounter_popcount: "byteCounter val = 2 * popcount8 val"
  by (simp add: byteCounter_def popcount8_def byteCounter_loop_count)

text \<open>
  Claim C8. For every 8-bit mask, \<open>__byteCounter\<close> returns exactly twice the number of
  set bits of the mask; in particular it returns 8 for \<open>0b10110001\<close>, 0 for \<open>0\<close> and 16
  for \<open>0xFF\<close>.
\<close>

theorem byteCounter_twice_popcount:
  "byteCounter val = 2 * popcount8 val \<and>
   byteCounter 0xB1 = 8 \<and> byteCounter 0 = 0 \<and> byteCounter 0xFF = 16"
proof -
  have "byteCounter val = 2 * popcount8 val"
    by (simp add: byteCounter_def popcount8_def byteCounter_loop_count)
  moreover have "byteCounter 0xB1 = 8"
    by (simp add: byteCounter_def byteCounter_loop.simps)
  moreover have "byteCounter 0 = 0"
    by (simp add: byteCounter_def byteCounter_loop.simps)
  moreover have "byteCounter 0xFF = 16"
    by (simp add: byteCounter_def byteCounter_loop.simps)
  ultimately show ?thesis
    by simp
qed

section \<open>Round trips of the scalar codecs\<close>

lemma roundtrip16: "(ucast (ucast v :: byte) OR push_bit 8 (ucast (ucast (drop_bit 8 v) :: byte))) = v"
  for v :: ushort
  by (rule bit_word_eqI) (auto simp add: bit_simps)

lemma roundtrip32:
  "(ucast (ucast v :: byte) OR push_bit 8 (ucast (ucast (drop_bit 8 v) :: byte)) OR
    push_bit 16 (ucast (ucast (drop_bit 16 v) :: byte)) OR
    push_bit 24 (ucast (ucast (drop_bit 24 v) :: byte))) = v"
  for v :: long
  apply (rule bit_word_eqI)
  apply (auto simp add: bit_simps not_less)
  subgoal for n by (cases "24 \<le> n") auto
  done

text \<open>
  Claim C10. At each width the serializer followed by the deserializer is the identity:
  for signed and unsigned 16-bit values and for signed and unsigned 32-bit values.
\<close>

theorem codec_roundtrip:
  "bytesToInt16 (int16ToBytes v16) = v16 \<and>
   bytesToUint16 (uint16ToBytes v16) = v16 \<and>
   bytesToInt32 (int32ToBytes v32) = v32 \<and>
   bytesToUint32 (uint32ToBytes v32) = v32"
  by (simp add: bytesToInt16_def int16ToBytes_def bytesToUint16_def uint16ToBytes_def
      bytesToInt32_def int32ToBytes_def bytesToUint32_def uint32ToBytes_def
      roundtrip16 roundtrip32)

section \<open>Decoding the motor data\<close>

lemma and_pow_eq_iff_bit: "(m AND 2 ^ n = 2 ^ n) = bit m n" if "n < 8" for m :: byte
proof
  assume "m AND 2 ^ n = 2 ^ n"
  then have "bit (m AND 2 ^ n) n = bit (2 ^ n :: byte) n" by simp
  with that show "bit m n" by (simp add: bit_simps)
next
  assume "bit m n"
  with that show "m AND 2 ^ n = 2 ^ n"
    by (intro bit_word_eqI) (auto simp add: bit_simps)
qed

lemma mask_tests:
  fixes m :: byte
  shows "(m AND 0x01 = 0x01) = bit m 0" "(m AND 0x02 = 0x02) = bit m 1"
    "(m AND 0x04 = 0x04) = bit m 2" "(m AND 0x08 = 0x08) = bit m 3"
    "(m AND 0x10 = 0x10) = bit m 4" "(m AND 0x20 = 0x20) = bit m 5"
    "(m AND 0x40 = 0x40) = bit m 6" "(m AND 0x80 = 0x80) = bit m 7"
  using and_pow_eq_iff_bit[of 0 m] and_pow_eq_iff_bit[of 1 m] and_pow_eq_iff_bit[of 2 m]
    and_pow_eq_iff_bit[of 3 m] and_pow_eq_iff_bit[of 4 m] and_pow_eq_iff_bit[of 5 m]
    and_pow_eq_iff_bit[of 6 m] and_pow_eq_iff_bit[of 7 m]
  by simp_all

lemma fieldRank_Suc: "fieldRank m (Suc j) = fieldRank m j + (if bit m j then 1 else 0)"
  by (simp add: fieldRank_def)

lemma fieldRank_le: "j \<le> 8 \<Longrightarrow> fieldRank m j + (if j < 8 \<and> bit m j then 1 else 0) \<le> popcount8 m"
proof -
  assume j: "j \<le> 8"
  have mono: "a \<le> b \<Longrightarrow> length (filter P [0..<a]) \<le> length (filter P [0..<b])" for a b :: nat and P
  proof -
    assume "a \<le> b"
    then have "[0..<b] = [0..<a] @ [a..<b]" by (metis le0 upt_add_eq_append le_add_diff_inverse)
    then show ?thesis by simp
  qed
  show ?thesis
  proof (cases "j < 8 \<and> bit m j")
    case True
    then have "fieldRank m j + 1 = fieldRank m (Suc j)" by (simp add: fieldRank_Suc)
    also have "\<dots> \<le> popcount8 m" unfolding fieldRank_def popcount8_def
      using True by (intro mono) simp
    finally show ?thesis using True by simp
  next
    case False
    then show ?thesis unfolding fieldRank_def popcount8_def using mono[OF j] by auto
  qed
qed

lemma decodedBelow_init: "decodedBelow m cm rb 0 (replicate 8 ErrorUint32Data, 0)"
  by (simp add: decodedBelow_def fieldRank_def)

lemma decodedBelow_step:
  assumes inv: "decodedBelow m cm rb j st"
    and j: "j < 8"
    and len: "length rb = 2 * popcount8 m"
    and nxt: "j' = Suc j"
    and sel: "selected = bit m j"
    and conv: "\<And>p. conv p = fieldValue j cm (p ! 0) (p ! 1)"
  shows "decodedBelow m cm rb j' (motorDataField selected j conv rb st)"
proof (cases "bit m j")
  case False
  with inv sel show ?thesis
    by (cases st) (auto simp add: nxt decodedBelow_def motorDataField_def fieldRank_Suc less_Suc_eq)
next
  case True
  obtain md ac where st: "st = (md, ac)" by (cases st)
  from inv st have l8: "length md = 8" and ac: "ac = 2 * fieldRank m j"
    and slots: "\<And>k. k < 8 \<Longrightarrow> md ! k =
         (if k < j \<and> bit m k
          then fieldValue k cm (rb ! (2 * fieldRank m k)) (rb ! (2 * fieldRank m k + 1))
          else ErrorUint32Data)"
    by (simp_all add: decodedBelow_def)
  from fieldRank_le[of j m] j True len ac have bound: "ac + 2 \<le> length rb" by simp
  then have d0: "drop ac rb ! 0 = rb ! ac" and d1: "drop ac rb ! Suc 0 = rb ! Suc ac"
    by simp_all
  have new: "motorDataField selected j conv rb st =
      (md[j := fieldValue j cm (rb ! ac) (rb ! (ac + 1))], ac + 2)"
    using True sel by (simp add: motorDataField_def st conv d0 d1)
  show ?thesis
    unfolding new decodedBelow_def nxt
    using l8 j True ac slots
    by (auto simp add: fieldRank_Suc nth_list_update less_Suc_eq)
qed


lemma convReceiveMotorData_decoded:
  assumes len: "length rb = 2 * popcount8 m" and sz: "unat sz = byteCounter m"
  shows "\<exists>st. convReceiveMotorData m rb sz cm = (True, fst st) \<and> decodedBelow m cm rb 8 st"
proof -
  have c0: "(if cm AND 0x01 = 0x01 then scast (bytesToInt16 p) else ucast (bytesToUint16 p)) =
      fieldValue 0 cm (p ! 0) (p ! 1)" for p
    by (simp add: fieldValue_def bytesToInt16_def bytesToUint16_def mask_tests)
  have cs: "0 < k \<Longrightarrow> k < 7 \<Longrightarrow> scast (bytesToInt16 p) = fieldValue k cm (p ! 0) (p ! 1)" for p k
    by (simp add: fieldValue_def bytesToInt16_def)
  have c7: "ucast (bytesToUint16 p) = fieldValue 7 cm (p ! 0) (p ! 1)" for p
    by (simp add: fieldValue_def bytesToUint16_def)
  note step = decodedBelow_step[where m = m and cm = cm and rb = rb, OF _ _ len]
  have s1: "decodedBelow m cm rb 1 (motorDataField (m AND 0x01 = 0x01) 0
      (\<lambda>p. if cm AND 0x01 = 0x01 then scast (bytesToInt16 p) else ucast (bytesToUint16 p)) rb
      (replicate 8 ErrorUint32Data, 0))" (is "decodedBelow _ _ _ _ ?st1")
    by (rule step[OF decodedBelow_init]) (simp, simp, simp add: mask_tests, rule c0)
  have s2: "decodedBelow m cm rb 2
      (motorDataField (m AND 0x02 = 0x02) 1 (\<lambda>p. scast (bytesToInt16 p)) rb ?st1)"
      (is "decodedBelow _ _ _ _ ?st2")
    by (rule step[OF s1]) (simp, simp, simp add: mask_tests, (rule cs; simp))
  have s3: "decodedBelow m cm rb 3
      (motorDataField (m AND 0x04 = 0x04) 2 (\<lambda>p. scast (bytesToInt16 p)) rb ?st2)"
      (is "decodedBelow _ _ _ _ ?st3")
    by (rule step[OF s2]) (simp, simp, simp add: mask_tests, (rule cs; simp))
  have s4: "decodedBelow m cm rb 4
      (motorDataField (m AND 0x08 = 0x08) 3 (\<lambda>p. scast (bytesToInt16 p)) rb ?st3)"
      (is "decodedBelow _ _ _ _ ?st4")
    by (rule step[OF s3]) (simp, simp, simp add: mask_tests, (rule cs; simp))
  have s5: "decodedBelow m cm rb 5
      (motorDataField (m AND 0x10 = 0x10) 4 (\<lambda>p. scast (bytesToInt16 p)) rb ?st4)"
      (is "decodedBelow _ _ _ _ ?st5")
    by (rule step[OF s4]) (simp, simp, simp add: mask_tests, (rule cs; simp))
  have s6: "decodedBelow m cm rb 6
      (motorDataField (m AND 0x20 = 0x20) 5 (\<lambda>p. scast (bytesToInt16 p)) rb ?st5)"
      (is "decodedBelow _ _ _ _ ?st6")
    by (rule step[OF s5]) (simp, simp, simp add: mask_tests, (rule cs; simp))
  have s7: "decodedBelow m cm rb 7
      (motorDataField (m AND 0x40 = 0x40) 6 (\<lambda>p. scast (bytesToInt16 p)) rb ?st6)"
      (is "decodedBelow _ _ _ _ ?st7")
    by (rule step[OF s6]) (simp, simp, simp add: mask_tests, (rule cs; simp))
  have s8: "decodedBelow m cm rb 8
      (motorDataField (m AND 0x80 = 0x80) 7 (\<lambda>p. ucast (bytesToUint16 p)) rb ?st7)"
      (is "decodedBelow _ _ _ _ ?st8")
    by (rule step[OF s7]) (simp, simp, simp add: mask_tests, rule c7)
  have eq: "convReceiveMotorData m rb sz cm = (True, fst ?st8)"
    using sz
    by (simp add: convReceiveMotorData_def Let_def ReceiveDataOption_Position_def
        ReceiveDataOption_Speed_def ReceiveDataOption_Current_def ReceiveDataOption_Torque_def
        ReceiveDataOption_Pwm_def ReceiveDataOption_MotorTemp_def ReceiveDataOption_CpuTemp_def
        ReceiveDataOption_Voltage_def ControlMode_Position_def)
  show ?thesis
    by (rule exI, rule conjI, rule eq, rule s8)
qed

text \<open>
  Claim C5. For every mask and a payload of exactly \<open>2 * popcount mask\<close> bytes the decode
  succeeds and fills eight slots; slot \<open>k\<close> of a selected field holds the value of the
  two consecutive payload bytes at offset \<open>2 * (number of selected fields before k)\<close>, low
  byte first, so that the payload is consumed in the canonical order; the position is
  read signed exactly when the control mode has bit \<open>0x01\<close>, the voltage unsigned, every
  other field signed; the slot of a field that is not selected holds \<open>0x7FFFFFFF\<close>.
\<close>

theorem convReceiveMotorData_canonical_order:
  assumes len: "length receiveBytes = 2 * popcount8 receiveMode"
    and sz: "unat receiveBytesSize = length receiveBytes"
    and k: "k < 8"
  shows "fst (convReceiveMotorData receiveMode receiveBytes receiveBytesSize controlMode) = True \<and>
    length (snd (convReceiveMotorData receiveMode receiveBytes receiveBytesSize controlMode)) = 8 \<and>
    snd (convReceiveMotorData receiveMode receiveBytes receiveBytesSize controlMode) ! k =
      (if bit receiveMode k
       then fieldValue k controlMode (receiveBytes ! (2 * fieldRank receiveMode k))
              (receiveBytes ! (2 * fieldRank receiveMode k + 1))
       else ErrorUint32Data)"
proof -
  from len sz have "unat receiveBytesSize = byteCounter receiveMode"
    by (simp add: byteCounter_popcount)
  from convReceiveMotorData_decoded[OF len this, of controlMode]
  obtain st where "convReceiveMotorData receiveMode receiveBytes receiveBytesSize controlMode = (True, fst st)"
    and "decodedBelow receiveMode controlMode receiveBytes 8 st"
    by blast
  with k show ?thesis
    by (simp add: decodedBelow_def)
qed

theorem convReceiveMotorData_canonical_order_witness: "snd (convReceiveMotorData 0x82 [0x10, 0x00, 0xE8, 0x03] 4 0x01) ! 7 = 1000 \<and>
  snd (convReceiveMotorData 0x82 [0x10, 0x00, 0xE8, 0x03] 4 0x01) ! 1 = 16 \<and> 
  snd (convReceiveMotorData 0x82 [0x10, 0x00, 0xE8, 0x03] 4 0x01) ! 0 = ErrorUint32Data"
proof -
  have up: "[0..<8] = [0,1,2,3,4,5,6,7]" "[0..<7] = [0,1,2,3,4,5,6]" "[0..<1] = [0]"
    by (simp_all add: upt_conv_Cons)
  have h1: "length [0x10, 0x00, 0xE8, 0x03 :: byte] = 2 * popcount8 0x82"
    by (simp add: popcount8_def up)
  have h2: "unat (4 :: byte) = length [0x10, 0x00, 0xE8, 0x03 :: byte]"
    by simp
  show ?thesis
    using convReceiveMotorData_canonical_order[OF h1 h2, where k = 7 and controlMode = "0x01"]
      convReceiveMotorData_canonical_order[OF h1 h2, where k = 1 and controlMode = "0x01"]
      convReceiveMotorData_canonical_order[OF h1 h2, where k = 0 and controlMode = "0x01"]
    by (simp add: fieldRank_def fieldValue_def up)
qed

section \<open>Frame validation\<close>

lemma mockCrc16_simps [simp]:
  "checkCrc16 (mockCrc16 v) b = v" "setCrc16 (mockCrc16 v) t = t"
  by (simp_all add: mockCrc16_def)

lemma mockTransport_simps [simp]:
  "synchronize (mockTransport f r n) c tx txLen rxLen = (f, r, c @ [tx])"
  "synchronizeVariableRead (mockTransport f r n) c tx txLen = (f, r, n, c @ [tx])"
  by (simp_all add: mockTransport_def)

text \<open>
  Claim C1, as amended. \<open>checkRecv\<close> checks the header, then the command, then the
  checksum: a header byte that differs gives \<open>ReceiveError\<close> whatever the checksum
  service says; with matching headers, a command byte that differs from the expected
  command masked to 7 bits (\<open>cmd & 0x7f\<close>: the mask is on the expected command, the
  received byte is compared as it is) gives \<open>ReceiveError\<close> whatever the checksum service
  says; with header and command matching, a checksum that does not verify gives
  \<open>CrcError\<close>; otherwise the result is \<open>OK\<close>.
\<close>

theorem checkRecv_precedence:
  "(rxBuff ! 0 \<noteq> header \<or> rxBuff ! 1 \<noteq> header \<longrightarrow>
      checkRecv crc rxBuff cmd header = ComError_ReceiveError) \<and>
   (rxBuff ! 0 = header \<and> rxBuff ! 1 = header \<and> rxBuff ! BuffPter_CMD \<noteq> (cmd AND 0x7f) \<longrightarrow>
      checkRecv crc rxBuff cmd header = ComError_ReceiveError) \<and>
   (rxBuff ! 0 = header \<and> rxBuff ! 1 = header \<and> rxBuff ! BuffPter_CMD = (cmd AND 0x7f) \<and>
    \<not> checkCrc16 crc rxBuff \<longrightarrow>
      checkRecv crc rxBuff cmd header = ComError_CrcError) \<and>
   (rxBuff ! 0 = header \<and> rxBuff ! 1 = header \<and> rxBuff ! BuffPter_CMD = (cmd AND 0x7f) \<and>
    checkCrc16 crc rxBuff \<longrightarrow>
      checkRecv crc rxBuff cmd header = ComError_OK)"
  by (simp add: checkRecv_def)

theorem checkRecv_precedence_witness:
  "checkRecv (mockCrc16 True) [0xFF, 0xFE, 0x01, 0x08, 0x20, 0x00, 0x12, 0x34] SendCmd_MemREAD 0xFE
     = ComError_ReceiveError \<and>
   checkRecv (mockCrc16 True) [0xFE, 0xFE, 0x01, 0x08, 0x21, 0x00, 0x12, 0x34] SendCmd_MemREAD 0xFE
     = ComError_ReceiveError \<and>
   checkRecv (mockCrc16 False) [0xFE, 0xFE, 0x01, 0x08, 0x20, 0x00, 0x12, 0x34] SendCmd_MemREAD 0xFE
     = ComError_CrcError \<and>
   checkRecv (mockCrc16 True) [0xFE, 0xFE, 0x01, 0x08, 0x20, 0x00, 0x12, 0x34] SendCmd_MemREAD 0xFE
     = ComError_OK"
  using
    checkRecv_precedence[of "[0xFF, 0xFE, 0x01, 0x08, 0x20, 0x00, 0x12, 0x34]" "0xFE"
      "mockCrc16 True" SendCmd_MemREAD]
    checkRecv_precedence[of "[0xFE, 0xFE, 0x01, 0x08, 0x21, 0x00, 0x12, 0x34]" "0xFE"
      "mockCrc16 True" SendCmd_MemREAD]
    checkRecv_precedence[of "[0xFE, 0xFE, 0x01, 0x08, 0x20, 0x00, 0x12, 0x34]" "0xFE"
      "mockCrc16 False" SendCmd_MemREAD]
    checkRecv_precedence[of "[0xFE, 0xFE, 0x01, 0x08, 0x20, 0x00, 0x12, 0x34]" "0xFE"
      "mockCrc16 True" SendCmd_MemREAD]
  by (simp add: BuffPter_CMD_def SendCmd_MemREAD_def)

text \<open>
  Claim C1 as stated fails. The response to \<open>MemREAD\<close> (\<open>0xa0\<close>) carries the command byte
  \<open>0x20\<close>: masked to 7 bits it differs from the expected command \<open>0xa0\<close>, and \<open>checkRecv\<close>
  does not answer \<open>ReceiveError\<close> but goes on to the checksum (\<open>OK\<close> when it verifies,
  \<open>CrcError\<close> when it does not). And a received command byte \<open>0xa0\<close>, which masked to 7
  bits equals an expected command \<open>0x20\<close>, is answered with \<open>ReceiveError\<close> although
  header and checksum are in order.
\<close>

theorem checkRecv_masks_received_counterexample:
  "[0xFE, 0xFE, 0x01, 0x08, 0x20, 0x00, 0x12, 0x34 :: byte] ! 0 = 0xFE \<and>
   [0xFE, 0xFE, 0x01, 0x08, 0x20, 0x00, 0x12, 0x34 :: byte] ! 1 = 0xFE \<and>
   ([0xFE, 0xFE, 0x01, 0x08, 0x20, 0x00, 0x12, 0x34 :: byte] ! BuffPter_CMD) AND 0x7f
     \<noteq> SendCmd_MemREAD \<and>
   checkRecv (mockCrc16 True) [0xFE, 0xFE, 0x01, 0x08, 0x20, 0x00, 0x12, 0x34] SendCmd_MemREAD 0xFE
     = ComError_OK \<and>
   checkRecv (mockCrc16 False) [0xFE, 0xFE, 0x01, 0x08, 0x20, 0x00, 0x12, 0x34] SendCmd_MemREAD 0xFE
     = ComError_CrcError \<and>
   ([0xFE, 0xFE, 0x01, 0x08, 0xA0, 0x00, 0x12, 0x34 :: byte] ! BuffPter_CMD) AND 0x7f = 0x20 \<and>
   checkRecv (mockCrc16 True) [0xFE, 0xFE, 0x01, 0x08, 0xA0, 0x00, 0x12, 0x34] 0x20 0xFE
     = ComError_ReceiveError \<and>
   ComError_OK \<noteq> ComError_ReceiveError \<and> ComError_CrcError \<noteq> ComError_ReceiveError"
  by (simp add: checkRecv_def BuffPter_CMD_def SendCmd_MemREAD_def ComError_OK_def
      ComError_CrcError_def ComError_ReceiveError_def)

text \<open>
  \<open>checkRecv\<close> accepts a frame exactly when both header bytes match, the command byte
  equals the expected command masked to 7 bits and the checksum service accepts the
  buffer. The length field \<open>rxBuff[3]\<close> takes no part in it.
\<close>

lemma checkRecv_ok_iff:
  "(checkRecv crc rxBuff cmd header = ComError_OK) =
   (rxBuff ! 0 = header \<and> rxBuff ! 1 = header \<and> rxBuff ! BuffPter_CMD = (cmd AND 0x7f) \<and>
    checkCrc16 crc rxBuff)"
  by (auto simp add: checkRecv_def ComError_OK_def ComError_ReceiveError_def
      ComError_CrcError_def)

text \<open>
  Claim C6 fails on the code. \<open>MemREAD\<close> of two bytes expects ten bytes; the transport
  delivers the ten bytes \<open>FE FE 01 09 20 00 05 11 22 FF\<close>, a response whose length field
  says nine (one data byte \<open>05\<close>, checksum \<open>11 22\<close>) followed by a stray byte. Whenever the
  checksum service accepts that buffer, \<open>checkRecv\<close> answers \<open>OK\<close> although the declared
  length differs from the number of bytes received, and \<open>MemREAD\<close> returns the status \<open>OK\<close>
  with the data \<open>05 11\<close>: a checksum byte is handed out as data.
\<close>

theorem MemREAD_accepts_length_mismatch:
  assumes "checkCrc16 crc [0xFE, 0xFE, 0x01, 0x09, 0x20, 0x00, 0x05, 0x11, 0x22, 0xFF]"
  shows "checkRecv crc [0xFE, 0xFE, 0x01, 0x09, 0x20, 0x00, 0x05, 0x11, 0x22, 0xFF]
           SendCmd_MemREAD 0xFE = ComError_OK \<and>
         unat ([0xFE, 0xFE, 0x01, 0x09, 0x20, 0x00, 0x05, 0x11, 0x22, 0xFF :: byte] ! BuffPter_Length)
           = 9 \<and>
         length [0xFE, 0xFE, 0x01, 0x09, 0x20, 0x00, 0x05, 0x11, 0x22, 0xFF :: byte] = 10 \<and>
         fst (MemREAD crc
                (mockTransport True [0xFE, 0xFE, 0x01, 0x09, 0x20, 0x00, 0x05, 0x11, 0x22, 0xFF] 0)
                [] 0x01 0 2 [0, 0]) = ComError_OK \<and>
         fst (snd (MemREAD crc
                (mockTransport True [0xFE, 0xFE, 0x01, 0x09, 0x20, 0x00, 0x05, 0x11, 0x22, 0xFF] 0)
                [] 0x01 0 2 [0, 0])) = [0x05, 0x11]"
proof -
  have ok: "checkRecv crc [0xFE, 0xFE, 0x01, 0x09, 0x20, 0x00, 0x05, 0x11, 0x22, 0xFF]
      SendCmd_MemREAD 0xFE = ComError_OK"
    using assms by (simp add: checkRecv_ok_iff BuffPter_CMD_def SendCmd_MemREAD_def)
  have two: "[0..<2] = [0, Suc 0]"
    by (simp add: upt_conv_Cons)
  show ?thesis
    using ok
    by (simp add: MemREAD_def Let_def two BuffPter_Length_def BuffPter_Status_def
        BuffPter_Data_def ComError_OK_def)
qed

theorem MemREAD_accepts_length_mismatch_witness:
  "fst (MemREAD (mockCrc16 True)
          (mockTransport True [0xFE, 0xFE, 0x01, 0x09, 0x20, 0x00, 0x05, 0x11, 0x22, 0xFF] 0)
          [] 0x01 0 2 [0, 0]) = 0 \<and>
   fst (snd (MemREAD (mockCrc16 True)
          (mockTransport True [0xFE, 0xFE, 0x01, 0x09, 0x20, 0x00, 0x05, 0x11, 0x22, 0xFF] 0)
          [] 0x01 0 2 [0, 0])) = [0x05, 0x11]"
proof -
  have accepted: "checkCrc16 (mockCrc16 True) [0xFE, 0xFE, 0x01, 0x09, 0x20, 0x00, 0x05, 0x11, 0x22, 0xFF]"
    by simp
  show ?thesis
    using MemREAD_accepts_length_mismatch[OF accepted]
    by (simp add: ComError_OK_def)
qed

section \<open>Size mismatch in the motion commands\<close>

lemma ucast_byte_and_high: "(ucast b :: ushort) AND push_bit 8 c = 0" for b :: byte
  by (rule bit_word_eqI) (auto simp add: bit_simps dest: bit_imp_le_length)

lemma status_plus_class:
  fixes b :: byte and c :: ushort
  shows "(ucast b + push_bit 8 c) AND 0x00FF = ucast b"
    and "(ucast b + push_bit 8 c) AND 0xFF00 = push_bit 8 c"
proof -
  have m: "(0xFF :: ushort) = mask 8" "(0xFF00 :: ushort) = push_bit 8 (mask 8)"
    by (simp_all add: mask_eq_exp_minus_1)
  show "(ucast b + push_bit 8 c) AND 0x00FF = ucast b"
    unfolding disjunctive_add_eq_or[OF ucast_byte_and_high] m
    by (rule bit_word_eqI) (auto simp add: bit_simps dest: bit_imp_le_length)
  show "(ucast b + push_bit 8 c) AND 0xFF00 = push_bit 8 c"
    unfolding disjunctive_add_eq_or[OF ucast_byte_and_high] m
    by (rule bit_word_eqI) (auto simp add: bit_simps dest: bit_imp_le_length)
qed

lemma status_with_class:
  fixes b :: byte
  shows "(ucast b + 0xFA00 :: ushort) AND 0x00FF = ucast b"
    and "(ucast b + 0xFA00 :: ushort) AND 0xFF00 = 0xFA00"
    and "(ucast b + 0xFB00 :: ushort) AND 0x00FF = ucast b"
    and "(ucast b + 0xFB00 :: ushort) AND 0xFF00 = 0xFB00"
  using status_plus_class[of b "0xFA"] status_plus_class[of b "0xFB"]
  by simp_all

lemma upt8: "[0..<8] = [0, 1, 2, 3, 4, 5, 6, 7]"
  by (simp add: upt_conv_Cons)

text \<open>
  Claim C2 fails on the code for frames longer than expected. The transport delivered a
  frame of \<open>rxNowSize\<close> bytes, the frame passed \<open>checkRecv\<close>, and \<open>rxNowSize\<close> differs from
  the expected \<open>8 + 1 + 2 * popcount receiveMode\<close>. When the frame is shorter, \<open>MotorREAD\<close>
  returns the device status byte in the low byte and \<open>MotorREADConvertError\<close> (\<open>0xFA00\<close>)
  in the high byte, and all eight slots of the sample hold \<open>0x7FFFFFFF\<close>, as claimed.
  When the frame is longer, it has been written past the end of \<open>rxbuf\<close> before the size
  is tested, and the call has no defined result.
\<close>

theorem MotorREAD_size_mismatch:
  assumes rx: "synchronizeVariableRead tr s
        (setCrc16 crc [0xFE, 0xFE, id', MinimumLength_Send, SendCmd_MotorREAD, 0x00, 0, 0])
        MinimumLength_Send = (True, rxbuf, rxNowSize, s')"
    and stored: "length rxbuf = unat rxNowSize"
    and valid: "checkRecv crc rxbuf SendCmd_MotorREAD 0xfe = ComError_OK"
  shows "(unat rxNowSize < 8 + 1 + 2 * popcount8 receiveMode \<longrightarrow>
           (case MotorREAD crc tr s id' receiveMode controlMode torqueSw of
              Inl f \<Rightarrow> False
            | Inr (status, readMotorData, sw, t) \<Rightarrow>
                status = ucast (rxbuf ! BuffPter_Status) + ComError_MotorREADConvertError \<and>
                status AND 0x00FF = ucast (rxbuf ! BuffPter_Status) \<and>
                status AND 0xFF00 = 0xFA00 \<and>
                readMotorData = replicate 8 0x7FFFFFFF \<and> t = s')) \<and>
         (unat rxNowSize > 8 + 1 + 2 * popcount8 receiveMode \<longrightarrow>
           MotorREAD crc tr s id' receiveMode controlMode torqueSw = Inl BufferOverrun)"
proof (intro conjI impI)
  assume short: "unat rxNowSize < 8 + 1 + 2 * popcount8 receiveMode"
  then have ne: "unat rxNowSize \<noteq> unat MinimumLength_Receive + 1 + byteCounter receiveMode"
    and fits: "\<not> unat MinimumLength_Receive + 1 + byteCounter receiveMode < length rxbuf"
    using stored by (simp_all add: byteCounter_popcount MinimumLength_Receive_def)
  have "MotorREAD crc tr s id' receiveMode controlMode torqueSw =
      Inr (ucast (rxbuf ! BuffPter_Status) + ComError_MotorREADConvertError,
           replicate 8 ErrorUint32Data,
           (if (if torqueSw \<noteq> None then Some TorqueSwitchType_Error else torqueSw) \<noteq> None \<and>
               rxNowSize \<ge> MinimumLength_Receive
            then Some (rxbuf ! BuffPter_Data)
            else (if torqueSw \<noteq> None then Some TorqueSwitchType_Error else torqueSw)),
           s')"
    using rx valid ne fits by (simp add: MotorREAD_def Let_def)
  then show "case MotorREAD crc tr s id' receiveMode controlMode torqueSw of
      Inl f \<Rightarrow> False
    | Inr (status, readMotorData, sw, t) \<Rightarrow>
        status = ucast (rxbuf ! BuffPter_Status) + ComError_MotorREADConvertError \<and>
        status AND 0x00FF = ucast (rxbuf ! BuffPter_Status) \<and>
        status AND 0xFF00 = 0xFA00 \<and>
        readMotorData = replicate 8 0x7FFFFFFF \<and> t = s'"
    by (simp add: ComError_MotorREADConvertError_def ErrorUint32Data_def status_with_class)
next
  assume long: "unat rxNowSize > 8 + 1 + 2 * popcount8 receiveMode"
  then have "unat MinimumLength_Receive + 1 + byteCounter receiveMode < length rxbuf"
    using stored by (simp add: byteCounter_popcount MinimumLength_Receive_def)
  then show "MotorREAD crc tr s id' receiveMode controlMode torqueSw = Inl BufferOverrun"
    using rx by (simp add: MotorREAD_def Let_def)
qed

theorem MotorREAD_size_mismatch_witness:
  "(case MotorREAD (mockCrc16 True)
       (mockTransport True [0xFE, 0xFE, 0x01, 0x0B, 0x24, 0x02, 0x01, 0x10, 0x00, 0xAA, 0xBB] 11)
       [] 0x01 0x05 0x01 None of
      Inl f \<Rightarrow> False
    | Inr (status, readMotorData, sw, t) \<Rightarrow>
        status = 0xFA02 \<and> readMotorData = replicate 8 0x7FFFFFFF \<and>
        t = [[0xFE, 0xFE, 0x01, 0x08, 0xA4, 0x00, 0, 0]]) \<and>
   MotorREAD (mockCrc16 True)
     (mockTransport True
        [0xFE, 0xFE, 0x01, 0x0D, 0x24, 0x02, 0x01, 0x10, 0x00, 0x20, 0x00, 0xAA, 0xBB] 13)
     [] 0x01 0x01 0x01 None = Inl BufferOverrun"
proof -
  let ?short = "[0xFE, 0xFE, 0x01, 0x0B, 0x24, 0x02, 0x01, 0x10, 0x00, 0xAA, 0xBB] :: byte list"
  let ?long = "[0xFE, 0xFE, 0x01, 0x0D, 0x24, 0x02, 0x01, 0x10, 0x00, 0x20, 0x00, 0xAA, 0xBB] :: byte list"
  let ?tx = "[0xFE, 0xFE, 0x01, MinimumLength_Send, SendCmd_MotorREAD, 0x00, 0, 0] :: byte list"
  have rx1: "synchronizeVariableRead (mockTransport True ?short 11) []
        (setCrc16 (mockCrc16 True) ?tx) MinimumLength_Send = (True, ?short, 11, [] @ [?tx])"
    by simp
  have rx2: "synchronizeVariableRead (mockTransport True ?long 13) []
        (setCrc16 (mockCrc16 True) ?tx) MinimumLength_Send = (True, ?long, 13, [] @ [?tx])"
    by simp
  have stored1: "length ?short = unat (11 :: byte)" and stored2: "length ?long = unat (13 :: byte)"
    by simp_all
  have valid1: "checkRecv (mockCrc16 True) ?short SendCmd_MotorREAD 0xfe = ComError_OK"
    and valid2: "checkRecv (mockCrc16 True) ?long SendCmd_MotorREAD 0xfe = ComError_OK"
    by (simp_all add: checkRecv_def BuffPter_CMD_def SendCmd_MotorREAD_def)
  have short: "unat (11 :: byte) < 8 + 1 + 2 * popcount8 0x05"
    and long: "unat (13 :: byte) > 8 + 1 + 2 * popcount8 0x01"
    by (simp_all add: popcount8_def upt8)
  show ?thesis
    using short long
      MotorREAD_size_mismatch[OF rx1 stored1 valid1, where receiveMode = "0x05"
        and controlMode = "0x01" and torqueSw = None]
      MotorREAD_size_mismatch[OF rx2 stored2 valid2, where receiveMode = "0x01"
        and controlMode = "0x01" and torqueSw = None]
    by (auto simp add: BuffPter_Status_def ComError_MotorREADConvertError_def
        MinimumLength_Send_def SendCmd_MotorREAD_def split: sum.splits)
qed



section \<open>Error values of the typed register reads\<close>

text \<open>
  The readers of one and two bytes leave \<open>0xFF\<close> and \<open>0x7FFF\<close> whenever the status carries
  an error class.
\<close>

lemma MemREAD_narrow_error_values:
  "(fst (MemREADToByte crc tr s id' addr byteData) AND ComError_ErrorMask \<noteq> 0 \<longrightarrow>
      fst (snd (MemREADToByte crc tr s id' addr byteData)) = 0xFF) \<and>
   (fst (MemREADToInt16 crc tr s id' addr) AND ComError_ErrorMask \<noteq> 0 \<longrightarrow>
      fst (snd (MemREADToInt16 crc tr s id' addr)) = 0x7FFF) \<and>
   (fst (MemREADToUint16 crc tr s id' addr) AND ComError_ErrorMask \<noteq> 0 \<longrightarrow>
      fst (snd (MemREADToUint16 crc tr s id' addr)) = 0x7FFF)"
proof -
  obtain st1 out1 s1 where r1: "MemREAD crc tr s id' addr 1 [byteData] = (st1, out1, s1)"
    by (cases "MemREAD crc tr s id' addr 1 [byteData]") auto
  obtain st2 out2 s2 where r2: "MemREAD crc tr s id' addr 2 [0, 0] = (st2, out2, s2)"
    by (cases "MemREAD crc tr s id' addr 2 [0, 0]") auto
  show ?thesis
    by (simp add: MemREADToByte_def MemREADToInt16_def MemREADToUint16_def r1 r2
        ErrorByteData_def ErrorUint16Data_def)
qed

text \<open>
  Claim C3 fails on the code for the two 32-bit readers. Whenever the status carries an
  error class, \<open>MemREADToInt32\<close> and \<open>MemREADToUint32\<close> leave \<open>0xFFFFFFFF\<close> (that is -1 as
  a \<open>long\<close>), not the 32-bit error value \<open>0x7FFFFFFF\<close>: the assignment casts
  \<open>ErrorUint32Data\<close> to \<open>short\<close> first.
\<close>

theorem MemREADTo32_error_value:
  "(fst (MemREADToInt32 crc tr s id' addr) AND ComError_ErrorMask \<noteq> 0 \<longrightarrow>
      fst (snd (MemREADToInt32 crc tr s id' addr)) = 0xFFFFFFFF) \<and>
   (fst (MemREADToUint32 crc tr s id' addr) AND ComError_ErrorMask \<noteq> 0 \<longrightarrow>
      fst (snd (MemREADToUint32 crc tr s id' addr)) = 0xFFFFFFFF) \<and>
   (0xFFFFFFFF :: long) \<noteq> ErrorUint32Data"
proof -
  have cast: "(scast (ucast ErrorUint32Data :: ushort) :: long) = 0xFFFFFFFF"
    by (simp add: ErrorUint32Data_def)
  obtain st out s' where r: "MemREAD crc tr s id' addr 4 [0, 0, 0, 0] = (st, out, s')"
    by (cases "MemREAD crc tr s id' addr 4 [0, 0, 0, 0]") auto
  show ?thesis
    by (simp add: MemREADToInt32_def MemREADToUint32_def r cast ErrorUint32Data_def)
qed

theorem MemREADTo32_error_value_witness:
  "fst (MemREADToInt32 (mockCrc16 True) (mockTransport False [] 0) [] 0x01 0) = ComError_TimeOut \<and>
   fst (snd (MemREADToInt32 (mockCrc16 True) (mockTransport False [] 0) [] 0x01 0)) = 0xFFFFFFFF \<and>
   fst (MemREADToUint32 (mockCrc16 True) (mockTransport False [] 0) [] 0x01 0) = ComError_TimeOut \<and>
   fst (snd (MemREADToUint32 (mockCrc16 True) (mockTransport False [] 0) [] 0x01 0)) = 0xFFFFFFFF"
proof -
  have t1: "fst (MemREADToInt32 (mockCrc16 True) (mockTransport False [] 0) [] 0x01 0) = ComError_TimeOut"
    by (simp add: MemREADToInt32_def MemREAD_def Let_def)
  have t2: "fst (MemREADToUint32 (mockCrc16 True) (mockTransport False [] 0) [] 0x01 0) = ComError_TimeOut"
    by (simp add: MemREADToUint32_def MemREAD_def Let_def)
  have m: "ComError_TimeOut AND ComError_ErrorMask \<noteq> 0"
    by (simp add: ComError_TimeOut_def ComError_ErrorMask_def)
  show ?thesis
    using MemREADTo32_error_value[of "mockCrc16 True" "mockTransport False [] 0" "[]" "0x01" 0] m
    by (simp add: t1 t2)
qed

section \<open>Argument checks before any transport call\<close>

text \<open>
  Claim C4. For every transport and every transport state: \<open>MemREAD\<close> with a size of 0 or
  of at least 244, \<open>MemWRITE\<close> with a size of 0 or of at least 245, and the torque-switch
  form of \<open>MotorWRITE\<close> with a switch value other than \<open>0x01\<close>, \<open>0x02\<close>, \<open>0x04\<close>, \<open>0x08\<close>
  return \<open>FormatError\<close> (\<open>0xFD00\<close>) and hand the transport state back unchanged: no
  transport method was called.
\<close>

theorem FormatError_before_transport:
  "(readDataSize = 0 \<or> readDataSize \<ge> 244 \<longrightarrow>
      MemREAD crc tr s id' addr readDataSize rxData = (0xFD00, rxData, s)) \<and>
   (txDataSize = 0 \<or> txDataSize \<ge> 245 \<longrightarrow>
      MemWRITE crc tr s id' addr txDataArray txDataSize writeOpt = (0xFD00, s)) \<and>
   (toruqeOnSw \<noteq> 0x01 \<and> toruqeOnSw \<noteq> 0x02 \<and> toruqeOnSw \<noteq> 0x04 \<and> toruqeOnSw \<noteq> 0x08 \<longrightarrow>
      fst (MotorWRITE crc tr s id' toruqeOnSw receiveMode receiveData controlMode) = 0xFD00 \<and>
      snd (snd (MotorWRITE crc tr s id' toruqeOnSw receiveMode receiveData controlMode)) = s)"
  by (simp add: MemREAD_def MemWRITE_def MotorWRITE_def Let_def ComError_FormatError_def
      TorqueSwitchType_TorqueOn_def TorqueSwitchType_Free_def TorqueSwitchType_Brake_def
      TorqueSwitchType_Hold_def)

theorem FormatError_before_transport_witness:
  "MemREAD (mockCrc16 True) (mockTransport True [] 0) [] 0x01 0 0 [0x55] = (0xFD00, [0x55], []) \<and>
   MemREAD (mockCrc16 True) (mockTransport True [] 0) [] 0x01 0 244 [0x55] = (0xFD00, [0x55], []) \<and>
   MemWRITE (mockCrc16 True) (mockTransport True [] 0) [] 0x01 0 [] 0 0 = (0xFD00, []) \<and>
   MemWRITE (mockCrc16 True) (mockTransport True [] 0) [] 0x01 0 [] 245 0 = (0xFD00, []) \<and>
   fst (MotorWRITE (mockCrc16 True) (mockTransport True [] 0) [] 0x01 0x99 0x00 None 0x01) = 0xFD00 \<and>
   snd (snd (MotorWRITE (mockCrc16 True) (mockTransport True [] 0) [] 0x01 0x99 0x00 None 0x01)) = [] \<and>
   snd (snd (MemREAD (mockCrc16 True) (mockTransport True [] 0) [] 0x01 0 1 [0x55])) \<noteq> []"
proof -
  have called: "snd (snd (MemREAD (mockCrc16 True) (mockTransport True [] 0) [] 0x01 0 1 [0x55])) \<noteq> []"
    by (simp add: MemREAD_def Let_def split: prod.splits)
  show ?thesis
    using FormatError_before_transport[of 0 "mockCrc16 True" "mockTransport True [] 0" "[]" "0x01" 0 "[0x55]"
        0 "[]" 0 "0x99" "0x00" None "0x01"]
      FormatError_before_transport[of 244 "mockCrc16 True" "mockTransport True [] 0" "[]" "0x01" 0 "[0x55]"
        245 "[]" 0 "0x99" "0x00" None "0x01"]
      called
    by simp
qed

section \<open>The busy flag of the hardware-serial transport\<close>














text \<open>
  Without interference the calls return whenever the arrays are as declared, the caller's
  arrays hold the lengths passed, and some number of reads empties the receive queue of
  the port.
\<close>

lemma discardReceived_returns:
  assumes "pmxSerial this = Some p"
    and "hw_available hw ((hw_read hw ^^ n) p) \<le> 0"
  shows "\<exists>q. discardReceived hw Some this = Some (this\<lparr>pmxSerial := Some q\<rparr>)"
  using assms
proof (induction n arbitrary: this p)
  case 0
  then have "discardReceived hw Some this = Some (this\<lparr>pmxSerial := Some p\<rparr>)"
    by (subst discardReceived.simps) (simp add: portCall_def)
  then show ?case by blast
next
  case (Suc n)
  show ?case
  proof (cases "hw_available hw p > 0")
    case True
    let ?t = "this\<lparr>pmxSerial := Some (hw_read hw p)\<rparr>"
    from Suc.prems have "hw_available hw ((hw_read hw ^^ n) (hw_read hw p)) \<le> 0"
      by (simp add: funpow_swap1)
    from Suc.IH[of ?t "hw_read hw p", OF _ this]
    obtain q where "discardReceived hw Some ?t = Some (?t\<lparr>pmxSerial := Some q\<rparr>)"
      by auto
    with True Suc.prems(1) have "discardReceived hw Some this = Some (this\<lparr>pmxSerial := Some q\<rparr>)"
      by (subst discardReceived.simps) (simp add: portCall_def)
    then show ?thesis by blast
  next
    case False
    with Suc.prems(1) have "discardReceived hw Some this = Some (this\<lparr>pmxSerial := Some p\<rparr>)"
      by (subst discardReceived.simps) (simp add: portCall_def)
    then show ?thesis by blast
  qed
qed

lemma synchronizeWrite_returns:
  assumes drains: "\<And>q. \<exists>n. hw_available hw ((hw_read hw ^^ n) q) \<le> 0"
    and port: "pmxSerial this = Some p"
    and tx: "unat txLen \<le> length txBuf"
    and sb: "length (sendBuff this) = 256"
  shows "\<exists>q sb'. synchronizeWrite hw Some this txBuf txLen =
      Some (this\<lparr>sendBuff := sb', pmxSerial := Some q\<rparr>) \<and> length sb' = 256"
proof -
  have small: "unat txLen \<le> 256"
    using unsigned_less[of txLen, where 'a = nat] by simp
  let ?sb = "take (unat txLen) txBuf @ drop (unat txLen) (sendBuff this)"
  let ?t = "this\<lparr>sendBuff := ?sb\<rparr>"
  let ?p = "hw_flush hw (hw_write hw (hw_digitalWrite hw (hw_flush hw p) (g_enPin this) True)
      (take (unat txLen) ?sb))"
  from drains[of ?p] obtain n where "hw_available hw ((hw_read hw ^^ n) ?p) \<le> 0"
    by blast
  from discardReceived_returns[of "?t\<lparr>pmxSerial := Some ?p\<rparr>" ?p hw n, OF _ this]
  obtain q where "discardReceived hw Some (?t\<lparr>pmxSerial := Some ?p\<rparr>) =
      Some (?t\<lparr>pmxSerial := Some q\<rparr>)"
    by auto
  with port tx sb small have "synchronizeWrite hw Some this txBuf txLen =
      Some (this\<lparr>sendBuff := ?sb, pmxSerial := Some (hw_digitalWrite hw q (g_enPin this) False)\<rparr>)"
    by (simp add: synchronizeWrite_def firstBytes_def writeAt_def portCall_def Let_def)
  moreover have "length ?sb = 256"
    using tx sb small by simp
  ultimately show ?thesis by blast
qed

lemma length_fold_update:
  "length (fold (\<lambda>i b. b[i := v]) js buf) = length buf"
  by (induction js arbitrary: buf) simp_all

lemma transport_returns:
  assumes drains: "\<And>q. \<exists>n. hw_available hw ((hw_read hw ^^ n) q) \<le> 0"
    and tx: "unat txLen \<le> length txBuf"
    and rx: "unat rxLen \<le> length rxBuf"
    and sb: "length (sendBuff this) = 256"
    and rb: "length (receiveBuff this) = 256"
  shows "(\<exists>r. PmxHardSerial_synchronize hw Some this txBuf txLen rxBuf rxLen = Some r) \<and>
    (\<exists>r. PmxHardSerial_synchronizeNoRead hw Some this txBuf txLen = Some r)"
proof (cases "pmxSerial this")
  case None
  then show ?thesis
    by (auto simp add: PmxHardSerial_synchronize_def PmxHardSerial_synchronizeNoRead_def)
next
  case (Some p)
  let ?X = "this\<lparr>isSynchronize := True\<rparr>"
  have small: "unat rxLen \<le> 256"
    using unsigned_less[of rxLen, where 'a = nat] by simp
  from synchronizeWrite_returns[of hw ?X p txLen txBuf, OF drains] Some tx sb
  obtain q sb' where w: "synchronizeWrite hw Some ?X txBuf txLen =
      Some (?X\<lparr>sendBuff := sb', pmxSerial := Some q\<rparr>)"
    by auto
  show ?thesis
  proof (intro conjI)
    show "\<exists>r. PmxHardSerial_synchronizeNoRead hw Some this txBuf txLen = Some r"
      using Some w by (auto simp add: PmxHardSerial_synchronizeNoRead_def Let_def)
    show "\<exists>r. PmxHardSerial_synchronize hw Some this txBuf txLen rxBuf rxLen = Some r"
      using Some w rx rb small
      by (cases "isSynchronize this")
        (auto simp add: PmxHardSerial_synchronize_def Let_def fill_def readBytes_def portCall_def
          writeAt_def firstBytes_def length_fold_update split: prod.splits)
  qed
qed


lemma portCall_Some:
  "portCall Some f this =
     (case pmxSerial this of
        None \<Rightarrow> None
      | Some p \<Rightarrow> (case f p of (a, p') \<Rightarrow> Some (a, this\<lparr>pmxSerial := Some p'\<rparr>)))"
  by (simp add: portCall_def split: option.splits prod.splits)

lemma scriptedPort_simps [simp]:
  "hw_flush scriptedPort p = p"
  "hw_write scriptedPort p bs = (fst p @ bs, snd p)"
  "hw_available scriptedPort p = 0"
  "hw_read scriptedPort p = p"
  "hw_readBytes scriptedPort p n = (take n (snd p), (fst p, drop n (snd p)))"
  "hw_digitalWrite scriptedPort p pin level = p"
  by (simp_all add: scriptedPort_def)

lemma discardReceived_scripted:
  "pmxSerial this = Some p \<Longrightarrow> discardReceived scriptedPort Some this = Some this"
  by (subst discardReceived.simps) (simp add: portCall_Some)

lemma fill_replicate: "n \<le> length b \<Longrightarrow> fold (\<lambda>i b. b[i := x]) [0..<n] b = replicate n x @ drop n b"
proof (induction n)
  case 0
  then show ?case by simp
next
  case (Suc n)
  then have "(replicate n x @ drop n b)[n := x] = replicate n x @ (drop n b)[0 := x]"
    by (simp add: list_update_append)
  also have "(drop n b)[0 := x] = x # drop (Suc n) b"
    using Suc.prems by (simp add: Cons_nth_drop_Suc[symmetric])
  finally show ?case using Suc by (simp add: replicate_append_same)
qed

lemmas scripted_eval = PmxHardSerial_synchronize_def PmxHardSerial_synchronizeVariableRead_def
  PmxHardSerial_synchronizeNoRead_def scriptedObject_def synchronizeWrite_def readBytes_def
  portCall_Some discardReceived_scripted writeAt_def firstBytes_def fill_def fill_replicate Let_def
  MinimumLength_Receive_def BuffPter_Length_def





section \<open>Frames that do not fit the arrays of the hardware-serial transport\<close>

text \<open>
  The failing input of claim C2 at the transport of the repository: \<open>MotorREAD\<close> with the
  mask \<open>0x01\<close> hands over an array of 11 bytes, the device answers with a frame of 13
  bytes, and \<open>synchronizeVariableRead\<close> copies the 13 bytes into the array. An array of
  13 bytes takes the same frame.
\<close>

lemma synchronizeVariableRead_overruns_caller_array:
  "PmxHardSerial_synchronizeVariableRead scriptedPort Some
     (scriptedObject False [0xFE, 0xFE, 0x01, 0x0D, 0x24, 0x02, 0x01, 0x10, 0x00, 0x20, 0x00, 0xAA, 0xBB])
     [0xFE, 0xFE, 0x01, 0x08, 0xA4, 0x00, 0xCC, 0xDD] 8 (replicate 11 0) 0 = None"
  "map_option (\<lambda>(r, b, n, t). (r, b, n))
     (PmxHardSerial_synchronizeVariableRead scriptedPort Some
        (scriptedObject False [0xFE, 0xFE, 0x01, 0x0D, 0x24, 0x02, 0x01, 0x10, 0x00, 0x20, 0x00, 0xAA, 0xBB])
        [0xFE, 0xFE, 0x01, 0x08, 0xA4, 0x00, 0xCC, 0xDD] 8 (replicate 13 0) 0) =
   Some (True, [0xFE, 0xFE, 0x01, 0x0D, 0x24, 0x02, 0x01, 0x10, 0x00, 0x20, 0x00, 0xAA, 0xBB], 13)"
  by (simp_all add: scripted_eval)

text \<open>
  A frame that declares a length below 6 makes the length of the second read wrap
  around: for the declared length 5 it is 255, and when 251 further bytes arrive they are
  stored from index 6 on, past the end of \<open>receiveBuff\<close>.
\<close>

lemma synchronizeVariableRead_overruns_receiveBuff:
  "PmxHardSerial_synchronizeVariableRead scriptedPort Some
     (scriptedObject False ([0xFE, 0xFE, 0x01, 0x05, 0x24, 0x00] @ replicate 251 0x00))
     [0xFE, 0xFE, 0x01, 0x08, 0xA4, 0x00, 0xCC, 0xDD] 8 (replicate 255 0) 0 = None"
proof -
  have wrapped: "unat (- 1 :: byte) = 255"
    by (simp add: unsigned_minus_1_eq_mask mask_eq_exp_minus_1)
  show ?thesis
    by (simp add: scripted_eval wrapped)
qed

end
